theory Spec2Isabelle
  imports Main
begin

section \<open>JavaScript values and objects\<close>

text \<open>
  The service works on plain JavaScript objects: request bodies, rows returned by the
  ORM, token payloads. An object is a map from property names to values; a property that
  is absent from the map reads as \<open>undefined\<close>. Strings are lists of characters, one
  character per code unit. Times are milliseconds since the epoch.
\<close>

datatype jsval =
    JUndefined
  | JNull
  | JBool bool
  | JNum int
  | JStr string
  | JDate int
  | JArr "jsval list"

type_synonym obj = "string \<rightharpoonup> jsval"

text \<open>Property access \<open>o.k\<close>.\<close>

definition get :: "obj \<Rightarrow> string \<Rightarrow> jsval" where
  "get ob k = (case ob k of None \<Rightarrow> JUndefined | Some v \<Rightarrow> v)"

text \<open>A value used where the code expects a string.\<close>

fun str :: "jsval \<Rightarrow> string" where
  "str (JStr s) = s"
| "str _ = []"

text \<open>An object literal \<open>{k1: v1, ...}\<close>; a property whose value is \<open>undefined\<close> is left out.\<close>

fun object :: "(string \<times> jsval) list \<Rightarrow> obj" where
  "object [] = Map.empty"
| "object ((k, v) # kvs) = (if v = JUndefined then object kvs else (object kvs)(k \<mapsto> v))"

section \<open>Errors\<close>

text \<open>
  Messages of \<open>AuthError\<close> are kept as the code units of the source's string literals.
  \<open>ZodError\<close> carries the path and the issue code of every issue; \<open>PrismaError\<close> is
  the ORM's failure, which the service does not catch.
\<close>

type_synonym message = "nat list"

datatype zod_code = invalid_type | too_small | too_big | invalid_string | custom | invalid_union

type_synonym zod_issue = "string \<times> zod_code"

datatype error =
    AuthError message string "string option"
  | ZodError "zod_issue list"
  | PrismaError string

definition msg_invalid_token :: message where
  "msg_invalid_token =
     [0x54, 0x6f, 0x6b, 0x65, 0x6e, 0x65e0, 0x6548, 0x6216, 0x5df2, 0x8fc7, 0x671f]"

definition msg_email_exists :: message where
  "msg_email_exists = [0x8be5, 0x90ae, 0x7bb1, 0x5df2, 0x88ab, 0x6ce8, 0x518c]"

definition msg_username_exists :: message where
  "msg_username_exists = [0x8be5, 0x7528, 0x6237, 0x540d, 0x5df2, 0x88ab, 0x4f7f, 0x7528]"

definition msg_invalid_credentials :: message where
  "msg_invalid_credentials = [0x90ae, 0x7bb1, 0x6216, 0x5bc6, 0x7801, 0x9519, 0x8bef]"

definition msg_user_not_found :: message where
  "msg_user_not_found = [0x7528, 0x6237, 0x4e0d, 0x5b58, 0x5728]"

definition msg_invalid_password :: message where
  "msg_invalid_password = [0x5f53, 0x524d, 0x5bc6, 0x7801, 0x9519, 0x8bef]"

definition msg_no_token :: message where
  "msg_no_token = [0x8bf7, 0x63d0, 0x4f9b, 0x8ba4, 0x8bc1, 0x74, 0x6f, 0x6b, 0x65, 0x6e]"

definition msg_server_error :: message where
  "msg_server_error = [0x670d, 0x52a1, 0x5668, 0x5185, 0x90e8, 0x9519, 0x8bef]"

definition msg_not_authenticated :: message where
  "msg_not_authenticated = [0x8bf7, 0x5148, 0x767b, 0x5f55]"

definition msg_insufficient_permissions :: message where
  "msg_insufficient_permissions = [0x6743, 0x9650, 0x4e0d, 0x8db3]"

section \<open>The libraries and the configuration\<close>

text \<open>
  A JSON Web Token is modelled symbolically: its claims and the key its signature was
  computed with. The compact serialisation of the library is a pair of functions between
  tokens and strings, taken as parameters; so are the password hash, the e-mail and URL
  format checks of the validation library, and the two configuration values read from
  the process environment.
\<close>

datatype jwt = Jwt obj string

record env =
  JWT_SECRET :: string
  JWT_EXPIRES_IN :: int
  jwt_encode :: "jwt \<Rightarrow> string"
  jwt_decode :: "string \<Rightarrow> jwt option"
  bcrypt_hash :: "string \<Rightarrow> nat \<Rightarrow> string \<Rightarrow> string"
  bcrypt_compare :: "string \<Rightarrow> string \<Rightarrow> bool"
  is_email :: "string \<Rightarrow> bool"
  is_url :: "string \<Rightarrow> bool"

datatype jwt_error = JsonWebTokenError string | NotBeforeError | TokenExpiredError





text \<open>
  \<open>jwt.sign(payload, secret, {expiresIn})\<close>: the library adds the issue time and the
  expiry, both in seconds, and nothing else.
\<close>

definition jwt_claims :: "obj \<Rightarrow> int \<Rightarrow> int \<Rightarrow> obj" where
  "jwt_claims payload expiresIn now =
     (let timestamp = now div 1000
      in payload(''iat'' \<mapsto> JNum timestamp, ''exp'' \<mapsto> JNum (timestamp + expiresIn)))"

definition jwt_sign :: "env \<Rightarrow> obj \<Rightarrow> string \<Rightarrow> int \<Rightarrow> int \<Rightarrow> string" where
  "jwt_sign e payload secret expiresIn now =
     jwt_encode e (Jwt (jwt_claims payload expiresIn now) secret)"

text \<open>\<open>jwt.verify(token, secret, {issuer, audience})\<close>, in the order of the library's checks.\<close>

definition audience_matches :: "string \<Rightarrow> jsval \<Rightarrow> bool" where
  "audience_matches audience aud =
     (case aud of JArr targets \<Rightarrow> JStr audience \<in> set targets | v \<Rightarrow> v = JStr audience)"

definition jwt_verify ::
  "env \<Rightarrow> string \<Rightarrow> string \<Rightarrow> string \<Rightarrow> string \<Rightarrow> int \<Rightarrow> jwt_error + obj" where
  "jwt_verify e token secret issuer audience now =
     (let clockTimestamp = now div 1000 in
      case jwt_decode e token of
        None \<Rightarrow> Inl (JsonWebTokenError ''jwt malformed'')
      | Some (Jwt payload k) \<Rightarrow>
          if k \<noteq> secret then Inl (JsonWebTokenError ''invalid signature'')
          else if (case get payload ''nbf'' of JUndefined \<Rightarrow> False | JNum _ \<Rightarrow> False | _ \<Rightarrow> True)
            then Inl (JsonWebTokenError ''invalid nbf value'')
          else if (case get payload ''nbf'' of JNum nbf \<Rightarrow> nbf > clockTimestamp | _ \<Rightarrow> False)
            then Inl NotBeforeError
          else if (case get payload ''exp'' of JUndefined \<Rightarrow> False | JNum _ \<Rightarrow> False | _ \<Rightarrow> True)
            then Inl (JsonWebTokenError ''invalid exp value'')
          else if (case get payload ''exp'' of JNum ex \<Rightarrow> clockTimestamp \<ge> ex | _ \<Rightarrow> False)
            then Inl TokenExpiredError
          else if \<not> audience_matches audience (get payload ''aud'')
            then Inl (JsonWebTokenError ''jwt audience invalid'')
          else if get payload ''iss'' \<noteq> JStr issuer
            then Inl (JsonWebTokenError ''jwt issuer invalid'')
          else Inr payload)"

section \<open>AuthService: tokens\<close>

text \<open>The payload \<open>{userId, email, role}\<close> that \<open>register\<close> and \<open>login\<close> sign.\<close>

definition AuthTokenPayload :: "jsval \<Rightarrow> jsval \<Rightarrow> jsval \<Rightarrow> obj" where
  "AuthTokenPayload userId email role =
     object [(''userId'', userId), (''email'', email), (''role'', role)]"

definition generateToken :: "env \<Rightarrow> int \<Rightarrow> obj \<Rightarrow> string" where
  "generateToken e now payload = jwt_sign e payload (JWT_SECRET e) (JWT_EXPIRES_IN e) now"

definition verifyToken :: "env \<Rightarrow> int \<Rightarrow> string \<Rightarrow> error + obj" where
  "verifyToken e now token =
     (case jwt_verify e token (JWT_SECRET e) ''blog-backend'' ''blog-frontend'' now of
        Inr payload \<Rightarrow> Inr payload
      | Inl _ \<Rightarrow> Inl (AuthError msg_invalid_token ''INVALID_TOKEN'' None))"

text \<open>
  The checks of the Session Token Authority, one by one, as the specification lists them:
  the token is well formed, its signature was made with the configured secret, its
  not-before and expiry times admit the current clock, and it names the expected
  audience and issuer.
\<close>

definition well_formed :: "env \<Rightarrow> string \<Rightarrow> bool" where
  "well_formed e token = (jwt_decode e token \<noteq> None)"

definition claims_of :: "env \<Rightarrow> string \<Rightarrow> obj" where
  "claims_of e token = (case jwt_decode e token of Some (Jwt payload k) \<Rightarrow> payload | None \<Rightarrow> Map.empty)"

definition signature_ok :: "env \<Rightarrow> string \<Rightarrow> bool" where
  "signature_ok e token =
     (case jwt_decode e token of Some (Jwt payload k) \<Rightarrow> k = JWT_SECRET e | None \<Rightarrow> False)"

definition active :: "int \<Rightarrow> obj \<Rightarrow> bool" where
  "active now payload =
     (case get payload ''nbf'' of JUndefined \<Rightarrow> True | JNum nbf \<Rightarrow> nbf \<le> now div 1000 | _ \<Rightarrow> False)"

definition unexpired :: "int \<Rightarrow> obj \<Rightarrow> bool" where
  "unexpired now payload =
     (case get payload ''exp'' of JUndefined \<Rightarrow> True | JNum ex \<Rightarrow> now div 1000 < ex | _ \<Rightarrow> False)"

definition audience_ok :: "obj \<Rightarrow> bool" where
  "audience_ok payload =
     (case get payload ''aud'' of
        JStr a \<Rightarrow> a = ''blog-frontend''
      | JArr targets \<Rightarrow> JStr ''blog-frontend'' \<in> set targets
      | _ \<Rightarrow> False)"

definition issuer_ok :: "obj \<Rightarrow> bool" where
  "issuer_ok payload = (get payload ''iss'' = JStr ''blog-backend'')"

definition all_checks_pass :: "env \<Rightarrow> int \<Rightarrow> string \<Rightarrow> bool" where
  "all_checks_pass e now token =
     (well_formed e token \<and> signature_ok e token \<and> active now (claims_of e token)
      \<and> unexpired now (claims_of e token) \<and> audience_ok (claims_of e token)
      \<and> issuer_ok (claims_of e token))"

section \<open>The access gate\<close>

record Request =
  authorization :: "string option"
  req_user :: "obj option"

datatype gate = Next Request | Respond nat string message

definition startsWith :: "string \<Rightarrow> string \<Rightarrow> bool" where
  "startsWith s p = (take (length p) s = p)"

definition bearer_token :: "Request \<Rightarrow> string option" where
  "bearer_token req =
     (case authorization req of
        None \<Rightarrow> None
      | Some authHeader \<Rightarrow>
          if authHeader \<noteq> [] \<and> startsWith authHeader ''Bearer '' then Some (drop 7 authHeader)
          else None)"

definition call_identity :: "obj \<Rightarrow> obj" where
  "call_identity payload =
     object [(''userId'', get payload ''userId''), (''email'', get payload ''email''),
             (''role'', get payload ''role'')]"

definition authenticateToken :: "env \<Rightarrow> int \<Rightarrow> Request \<Rightarrow> gate" where
  "authenticateToken e now req =
     (case bearer_token req of
        None \<Rightarrow> Respond 401 ''NO_TOKEN'' msg_no_token
      | Some token \<Rightarrow>
          if token = [] then Respond 401 ''NO_TOKEN'' msg_no_token
          else (case verifyToken e now token of
                  Inr payload \<Rightarrow> Next (req\<lparr>req_user := Some (call_identity payload)\<rparr>)
                | Inl (AuthError m code field) \<Rightarrow> Respond 401 code m
                | Inl _ \<Rightarrow> Respond 500 ''SERVER_ERROR'' msg_server_error))"

definition optionalAuth :: "env \<Rightarrow> int \<Rightarrow> Request \<Rightarrow> gate" where
  "optionalAuth e now req =
     (case bearer_token req of
        None \<Rightarrow> Next req
      | Some token \<Rightarrow>
          if token = [] then Next req
          else (case verifyToken e now token of
                  Inr payload \<Rightarrow> Next (req\<lparr>req_user := Some (call_identity payload)\<rparr>)
                | Inl _ \<Rightarrow> Next req))"

definition requireRole :: "string list \<Rightarrow> Request \<Rightarrow> gate" where
  "requireRole roles req =
     (case req_user req of
        None \<Rightarrow> Respond 401 ''NOT_AUTHENTICATED'' msg_not_authenticated
      | Some u \<Rightarrow>
          if get u ''role'' \<notin> set (map JStr roles)
          then Respond 403 ''INSUFFICIENT_PERMISSIONS'' msg_insufficient_permissions
          else Next req)"

definition requireAdmin :: "Request \<Rightarrow> gate" where
  "requireAdmin = requireRole [''ADMIN'']"

definition requireEditor :: "Request \<Rightarrow> gate" where
  "requireEditor = requireRole [''EDITOR'', ''ADMIN'']"

section \<open>Input schemas\<close>

text \<open>
  A schema validates every property and collects the issues of all of them; the parse
  fails when there is any issue and otherwise yields the input restricted to the
  properties of the schema (unknown properties are stripped).
\<close>

definition z_min :: "nat \<Rightarrow> string \<Rightarrow> zod_code list" where
  "z_min n s = (if length s < n then [too_small] else [])"

definition z_max :: "nat \<Rightarrow> string \<Rightarrow> zod_code list" where
  "z_max n s = (if length s > n then [too_big] else [])"

definition z_regex :: "(string \<Rightarrow> bool) \<Rightarrow> string \<Rightarrow> zod_code list" where
  "z_regex matches s = (if matches s then [] else [invalid_string])"

definition z_string :: "(string \<Rightarrow> zod_code list) \<Rightarrow> string \<Rightarrow> jsval \<Rightarrow> zod_issue list" where
  "z_string checks path v =
     (case v of JStr s \<Rightarrow> map (Pair path) (checks s) | _ \<Rightarrow> [(path, invalid_type)])"

definition z_optional :: "(string \<Rightarrow> jsval \<Rightarrow> zod_issue list) \<Rightarrow> string \<Rightarrow> jsval \<Rightarrow> zod_issue list" where
  "z_optional schema path v = (if v = JUndefined then [] else schema path v)"

definition z_boolean :: "(bool \<Rightarrow> zod_code list) \<Rightarrow> string \<Rightarrow> jsval \<Rightarrow> zod_issue list" where
  "z_boolean checks path v =
     (case v of JBool b \<Rightarrow> map (Pair path) (checks b) | _ \<Rightarrow> [(path, invalid_type)])"

definition z_refine :: "(bool \<Rightarrow> bool) \<Rightarrow> bool \<Rightarrow> zod_code list" where
  "z_refine ok b = (if ok b then [] else [custom])"

definition z_object :: "string list \<Rightarrow> zod_issue list \<Rightarrow> obj \<Rightarrow> error + obj" where
  "z_object keys issues data =
     (if issues = [] then Inr (data |` set keys) else Inl (ZodError issues))"

text \<open>The pattern \<open>/^[a-zA-Z0-9_]+$/\<close>.\<close>

definition word_char :: "char \<Rightarrow> bool" where
  "word_char c =
     (let n = (of_char c :: nat)
      in (97 \<le> n \<and> n \<le> 122) \<or> (65 \<le> n \<and> n \<le> 90) \<or> (48 \<le> n \<and> n \<le> 57) \<or> n = 95)"

definition username_pattern :: "string \<Rightarrow> bool" where
  "username_pattern s = (s \<noteq> [] \<and> list_all word_char s)"

definition register_issues :: "env \<Rightarrow> obj \<Rightarrow> zod_issue list" where
  "register_issues e data =
     z_string (z_regex (is_email e)) ''email'' (get data ''email'')
     @ z_string (\<lambda>s. z_min 3 s @ z_max 20 s @ z_regex username_pattern s)
         ''username'' (get data ''username'')
     @ z_string (\<lambda>s. z_min 2 s @ z_max 50 s) ''displayName'' (get data ''displayName'')
     @ z_string (\<lambda>s. z_min 6 s @ z_max 100 s) ''password'' (get data ''password'')
     @ z_boolean (z_refine (\<lambda>val. val = True)) ''agreeToTerms'' (get data ''agreeToTerms'')"

definition registerSchema :: "env \<Rightarrow> obj \<Rightarrow> error + obj" where
  "registerSchema e data =
     z_object [''email'', ''username'', ''displayName'', ''password'', ''agreeToTerms'']
       (register_issues e data) data"

definition login_issues :: "env \<Rightarrow> obj \<Rightarrow> zod_issue list" where
  "login_issues e data =
     z_string (z_regex (is_email e)) ''email'' (get data ''email'')
     @ z_string (z_min 1) ''password'' (get data ''password'')
     @ z_optional (z_boolean (\<lambda>b. [])) ''rememberMe'' (get data ''rememberMe'')"

definition loginSchema :: "env \<Rightarrow> obj \<Rightarrow> error + obj" where
  "loginSchema e data = z_object [''email'', ''password'', ''rememberMe''] (login_issues e data) data"

text \<open>
  \<open>avatar\<close> is the union of an optional URL string and the literal empty string: the
  value passes when either member accepts it; a string that is neither reports the URL
  issue of the first member, any other value the issue of the union.
\<close>

definition z_avatar :: "env \<Rightarrow> string \<Rightarrow> jsval \<Rightarrow> zod_issue list" where
  "z_avatar e path v =
     (if z_optional (z_string (z_regex (is_url e))) path v = [] then []
      else if v = JStr [] then []
      else (case v of JStr s \<Rightarrow> z_string (z_regex (is_url e)) path v
                    | _ \<Rightarrow> [(path, invalid_union)]))"

definition updateProfile_issues :: "env \<Rightarrow> obj \<Rightarrow> zod_issue list" where
  "updateProfile_issues e data =
     z_optional (z_string (\<lambda>s. z_min 2 s @ z_max 50 s)) ''displayName'' (get data ''displayName'')
     @ z_optional (z_string (z_max 500)) ''bio'' (get data ''bio'')
     @ z_avatar e ''avatar'' (get data ''avatar'')"

definition updateProfileSchema :: "env \<Rightarrow> obj \<Rightarrow> error + obj" where
  "updateProfileSchema e data =
     z_object [''displayName'', ''bio'', ''avatar''] (updateProfile_issues e data) data"

definition changePassword_issues :: "obj \<Rightarrow> zod_issue list" where
  "changePassword_issues data =
     z_string (z_min 1) ''oldPassword'' (get data ''oldPassword'')
     @ z_string (\<lambda>s. z_min 6 s @ z_max 100 s) ''newPassword'' (get data ''newPassword'')"

definition changePasswordSchema :: "obj \<Rightarrow> error + obj" where
  "changePasswordSchema data =
     z_object [''oldPassword'', ''newPassword''] (changePassword_issues data) data"

text \<open>The request bodies \<open>{email, password}\<close> and \<open>{oldPassword, newPassword}\<close>.\<close>

definition LoginData :: "string \<Rightarrow> string \<Rightarrow> obj" where
  "LoginData email password = [''email'' \<mapsto> JStr email, ''password'' \<mapsto> JStr password]"


section \<open>The persistence collaborator\<close>

text \<open>
  The user table is the list of its rows. \<open>findUnique\<close> returns the row whose unique
  field has the given value, or nothing; \<open>update\<close> writes the given properties into the
  row with the given id, leaving out those whose value is \<open>undefined\<close>, and fails when
  there is no such row; \<open>create\<close> adds a row and fails when a unique field would be
  duplicated. The declaration of the table is not among the sources: whether the table
  stamps \<open>updatedAt\<close> by itself when a row is updated is not known, and \<open>update\<close>
  models the properties it is handed.
\<close>

type_synonym store = "obj list"

definition findUnique :: "string \<Rightarrow> jsval \<Rightarrow> store \<Rightarrow> obj option" where
  "findUnique field v st = find (\<lambda>u. u field = Some v) st"

definition defined :: "obj \<Rightarrow> obj" where
  "defined data = (\<lambda>k. if data k = Some JUndefined then None else data k)"

fun update_where :: "string \<Rightarrow> jsval \<Rightarrow> obj \<Rightarrow> store \<Rightarrow> (obj \<times> store) option" where
  "update_where field v data [] = None"
| "update_where field v data (u # st) =
     (if u field = Some v then Some (u ++ defined data, (u ++ defined data) # st)
      else (case update_where field v data st of
              None \<Rightarrow> None
            | Some (u', st') \<Rightarrow> Some (u', u # st')))"

definition prisma_update :: "jsval \<Rightarrow> obj \<Rightarrow> store \<Rightarrow> error + obj \<times> store" where
  "prisma_update userId data st =
     (case update_where ''id'' userId data st of
        None \<Rightarrow> Inl (PrismaError ''P2025'')
      | Some r \<Rightarrow> Inr r)"

text \<open>
  Modelled from the spec: the declaration of the user table is not among the sources.
  An account has the properties the specification's data model lists, under the names
  the sources use for them; a new row gets a fresh id, no bio, avatar or last login,
  the verification flag unset, and the creation time in both timestamps.
\<close>

definition user_defaults :: "int \<Rightarrow> string \<Rightarrow> obj" where
  "user_defaults now newId =
     [''id'' \<mapsto> JStr newId, ''bio'' \<mapsto> JNull, ''avatar'' \<mapsto> JNull,
      ''isEmailVerified'' \<mapsto> JBool False, ''lastLoginAt'' \<mapsto> JNull,
      ''createdAt'' \<mapsto> JDate now, ''updatedAt'' \<mapsto> JDate now]"

definition duplicates :: "obj \<Rightarrow> obj \<Rightarrow> bool" where
  "duplicates row u =
     (u ''id'' = row ''id'' \<or> u ''email'' = row ''email'' \<or> u ''username'' = row ''username'')"

definition prisma_create :: "obj \<Rightarrow> int \<Rightarrow> string \<Rightarrow> store \<Rightarrow> error + obj \<times> store" where
  "prisma_create data now newId st =
     (let row = user_defaults now newId ++ data
      in if list_ex (duplicates row) st then Inl (PrismaError ''P2002'')
         else Inr (row, st @ [row]))"

section \<open>AuthService: accounts\<close>

record AuthResult =
  user :: obj
  token :: string

definition hashPassword :: "env \<Rightarrow> string \<Rightarrow> string \<Rightarrow> string" where
  "hashPassword e password salt = bcrypt_hash e password 12 salt"

definition verifyPassword :: "env \<Rightarrow> string \<Rightarrow> string \<Rightarrow> bool" where
  "verifyPassword e password hash = bcrypt_compare e password hash"

definition excludePassword :: "obj \<Rightarrow> obj" where
  "excludePassword u = u |` (- {''passwordHash''})"

definition register ::
  "env \<Rightarrow> obj \<Rightarrow> int \<Rightarrow> string \<Rightarrow> string \<Rightarrow> store \<Rightarrow> (error + AuthResult) \<times> store" where
  "register e data now salt newId st =
     (case registerSchema e data of
        Inl err \<Rightarrow> (Inl err, st)
      | Inr validatedData \<Rightarrow>
          (case findUnique ''email'' (get validatedData ''email'') st of
             Some existingUserByEmail \<Rightarrow>
               (Inl (AuthError msg_email_exists ''EMAIL_EXISTS'' (Some ''email'')), st)
           | None \<Rightarrow>
               (case findUnique ''username'' (get validatedData ''username'') st of
                  Some existingUserByUsername \<Rightarrow>
                    (Inl (AuthError msg_username_exists ''USERNAME_EXISTS'' (Some ''username'')), st)
                | None \<Rightarrow>
                    (let passwordHash = hashPassword e (str (get validatedData ''password'')) salt
                     in case prisma_create
                               (object [(''email'', get validatedData ''email''),
                                        (''username'', get validatedData ''username''),
                                        (''displayName'', get validatedData ''displayName''),
                                        (''passwordHash'', JStr passwordHash),
                                        (''role'', JStr ''USER'')])
                               now newId st of
                          Inl err \<Rightarrow> (Inl err, st)
                        | Inr (u, st') \<Rightarrow>
                            (Inr \<lparr>user = excludePassword u,
                                  token = generateToken e now
                                    (AuthTokenPayload (get u ''id'') (get u ''email'') (get u ''role''))\<rparr>,
                             st')))))"

definition login :: "env \<Rightarrow> obj \<Rightarrow> int \<Rightarrow> store \<Rightarrow> (error + AuthResult) \<times> store" where
  "login e data now st =
     (case loginSchema e data of
        Inl err \<Rightarrow> (Inl err, st)
      | Inr validatedData \<Rightarrow>
          (case findUnique ''email'' (get validatedData ''email'') st of
             None \<Rightarrow> (Inl (AuthError msg_invalid_credentials ''INVALID_CREDENTIALS'' None), st)
           | Some u \<Rightarrow>
               if \<not> verifyPassword e (str (get validatedData ''password''))
                       (str (get u ''passwordHash''))
               then (Inl (AuthError msg_invalid_credentials ''INVALID_CREDENTIALS'' None), st)
               else (case prisma_update (get u ''id'') [''lastLoginAt'' \<mapsto> JDate now] st of
                       Inl err \<Rightarrow> (Inl err, st)
                     | Inr (updatedUser, st') \<Rightarrow>
                         (Inr \<lparr>user = excludePassword updatedUser,
                               token = generateToken e now
                                 (AuthTokenPayload (get u ''id'') (get u ''email'') (get u ''role''))\<rparr>,
                          st'))))"

definition getCurrentUser :: "string \<Rightarrow> store \<Rightarrow> error + obj" where
  "getCurrentUser userId st =
     (case findUnique ''id'' (JStr userId) st of
        None \<Rightarrow> Inl (AuthError msg_user_not_found ''USER_NOT_FOUND'' None)
      | Some u \<Rightarrow> Inr (excludePassword u))"

definition updateProfile ::
  "env \<Rightarrow> string \<Rightarrow> obj \<Rightarrow> int \<Rightarrow> store \<Rightarrow> (error + obj) \<times> store" where
  "updateProfile e userId data now st =
     (case updateProfileSchema e data of
        Inl err \<Rightarrow> (Inl err, st)
      | Inr validatedData \<Rightarrow>
          (case prisma_update (JStr userId) (validatedData(''updatedAt'' \<mapsto> JDate now)) st of
             Inl err \<Rightarrow> (Inl err, st)
           | Inr (updatedUser, st') \<Rightarrow> (Inr (excludePassword updatedUser), st')))"

definition changePassword ::
  "env \<Rightarrow> string \<Rightarrow> obj \<Rightarrow> int \<Rightarrow> string \<Rightarrow> store \<Rightarrow> (error + unit) \<times> store" where
  "changePassword e userId data now salt st =
     (case changePasswordSchema data of
        Inl err \<Rightarrow> (Inl err, st)
      | Inr validatedData \<Rightarrow>
          (case findUnique ''id'' (JStr userId) st of
             None \<Rightarrow> (Inl (AuthError msg_user_not_found ''USER_NOT_FOUND'' None), st)
           | Some u \<Rightarrow>
               if \<not> verifyPassword e (str (get validatedData ''oldPassword''))
                       (str (get u ''passwordHash''))
               then (Inl (AuthError msg_invalid_password ''INVALID_PASSWORD'' None), st)
               else (let newPasswordHash =
                           hashPassword e (str (get validatedData ''newPassword'')) salt
                     in case prisma_update (JStr userId)
                               [''passwordHash'' \<mapsto> JStr newPasswordHash,
                                ''updatedAt'' \<mapsto> JDate now] st of
                          Inl err \<Rightarrow> (Inl err, st)
                        | Inr (updatedUser, st') \<Rightarrow> (Inr (), st'))))"

section \<open>The properties each operation writes\<close>

text \<open>
  Names for the \<open>data\<close> objects that \<open>login\<close>, \<open>updateProfile\<close> and
  \<open>changePassword\<close> hand to \<open>update\<close>, as they stand in the definitions above.
\<close>

definition login_data :: "int \<Rightarrow> obj" where
  "login_data now = [''lastLoginAt'' \<mapsto> JDate now]"

definition profile_data :: "obj \<Rightarrow> int \<Rightarrow> obj" where
  "profile_data data now =
     (data |` set [''displayName'', ''bio'', ''avatar''])(''updatedAt'' \<mapsto> JDate now)"

definition password_data :: "string \<Rightarrow> int \<Rightarrow> obj" where
  "password_data newPasswordHash now =
     [''passwordHash'' \<mapsto> JStr newPasswordHash, ''updatedAt'' \<mapsto> JDate now]"

section \<open>A small environment for the examples\<close>

text \<open>
  The examples run the definitions in an environment with the default configuration of
  the sources, a serialisation that knows two tokens (the one \<open>generateToken\<close> issues
  for the example payload at time 0, and one that also names the expected issuer and
  audience), a password hash that prefixes a salt of two characters, and format checks
  that look for \<open>@\<close> and for the prefix \<open>http\<close>.
\<close>

definition example_secret :: string where
  "example_secret = ''your-super-secret-jwt-key-change-this-in-production''"

definition example_payload :: obj where
  "example_payload = AuthTokenPayload (JStr ''u1'') (JStr ''a@x.com'') (JStr ''USER'')"

definition example_env :: env where
  "example_env =
     \<lparr>JWT_SECRET = example_secret,
      JWT_EXPIRES_IN = 604800,
      jwt_encode = (\<lambda>j. ''issued.jwt''),
      jwt_decode = (\<lambda>s.
        if s = ''issued.jwt'' then Some (Jwt (jwt_claims example_payload 604800 0) example_secret)
        else if s = ''tagged.jwt'' then
          Some (Jwt ((jwt_claims example_payload 604800 0)
                       (''iss'' \<mapsto> JStr ''blog-backend'', ''aud'' \<mapsto> JStr ''blog-frontend''))
                    example_secret)
        else None),
      bcrypt_hash = (\<lambda>password rounds salt. take 2 (salt @ ''..'') @ password),
      bcrypt_compare = (\<lambda>password hash. drop 2 hash = password),
      is_email = (\<lambda>s. CHR ''@'' \<in> set s),
      is_url = (\<lambda>s. take 4 s = ''http'')\<rparr>"

text \<open>The example table holds one account, whose password is \<open>secret1\<close>.\<close>

definition example_user :: obj where
  "example_user =
     [''id'' \<mapsto> JStr ''u1'', ''email'' \<mapsto> JStr ''a@x.com'', ''username'' \<mapsto> JStr ''alice'',
      ''displayName'' \<mapsto> JStr ''Alice'', ''passwordHash'' \<mapsto> JStr ''s1secret1'',
      ''role'' \<mapsto> JStr ''USER'', ''bio'' \<mapsto> JNull, ''avatar'' \<mapsto> JNull,
      ''isEmailVerified'' \<mapsto> JBool False, ''lastLoginAt'' \<mapsto> JNull,
      ''createdAt'' \<mapsto> JDate 0, ''updatedAt'' \<mapsto> JDate 0]"

definition example_store :: store where
  "example_store = [example_user]"

definition example_registration :: obj where
  "example_registration =
     [''email'' \<mapsto> JStr ''b@x.com'', ''username'' \<mapsto> JStr ''bob'',
      ''displayName'' \<mapsto> JStr ''Bob'', ''password'' \<mapsto> JStr ''secret2'',
      ''agreeToTerms'' \<mapsto> JBool True]"




section \<open>Token verification\<close>

lemma active_iff:
  "active now p \<longleftrightarrow>
     \<not> (case get p ''nbf'' of JUndefined \<Rightarrow> False | JNum _ \<Rightarrow> False | _ \<Rightarrow> True) \<and>
     \<not> (case get p ''nbf'' of JNum nbf \<Rightarrow> nbf > now div 1000 | _ \<Rightarrow> False)"
  by (cases "get p ''nbf''") (auto simp: active_def)

lemma unexpired_iff:
  "unexpired now p \<longleftrightarrow>
     \<not> (case get p ''exp'' of JUndefined \<Rightarrow> False | JNum _ \<Rightarrow> False | _ \<Rightarrow> True) \<and>
     \<not> (case get p ''exp'' of JNum ex \<Rightarrow> now div 1000 \<ge> ex | _ \<Rightarrow> False)"
  by (cases "get p ''exp''") (auto simp: unexpired_def)

lemma audience_ok_iff: "audience_ok p \<longleftrightarrow> audience_matches ''blog-frontend'' (get p ''aud'')"
  by (cases "get p ''aud''") (auto simp: audience_ok_def audience_matches_def)

lemma jwt_verify_decoded:
  assumes "jwt_decode e t = Some (Jwt p k)"
  shows "jwt_verify e t (JWT_SECRET e) ''blog-backend'' ''blog-frontend'' now =
           (if k = JWT_SECRET e \<and> active now p \<and> unexpired now p \<and> audience_ok p \<and> issuer_ok p
            then Inr p
            else Inl (if k \<noteq> JWT_SECRET e then JsonWebTokenError ''invalid signature''
                 else if (case get p ''nbf'' of JUndefined \<Rightarrow> False | JNum _ \<Rightarrow> False | _ \<Rightarrow> True)
                   then JsonWebTokenError ''invalid nbf value''
                 else if \<not> active now p then NotBeforeError
                 else if (case get p ''exp'' of JUndefined \<Rightarrow> False | JNum _ \<Rightarrow> False | _ \<Rightarrow> True)
                   then JsonWebTokenError ''invalid exp value''
                 else if \<not> unexpired now p then TokenExpiredError
                 else if \<not> audience_ok p then JsonWebTokenError ''jwt audience invalid''
                 else JsonWebTokenError ''jwt issuer invalid''))"
  using assms
  by (simp add: jwt_verify_def Let_def active_iff unexpired_iff audience_ok_iff issuer_ok_def)

lemma all_checks_pass_decoded:
  "jwt_decode e t = Some (Jwt p k) \<Longrightarrow>
   all_checks_pass e now t \<longleftrightarrow>
     k = JWT_SECRET e \<and> active now p \<and> unexpired now p \<and> audience_ok p \<and> issuer_ok p"
  by (simp add: all_checks_pass_def well_formed_def signature_ok_def claims_of_def)

lemma all_checks_pass_malformed: "jwt_decode e t = None \<Longrightarrow> \<not> all_checks_pass e now t"
  by (simp add: all_checks_pass_def well_formed_def)

lemma verifyToken_cases:
  "verifyToken e now t =
     (if all_checks_pass e now t then Inr (claims_of e t)
      else Inl (AuthError msg_invalid_token ''INVALID_TOKEN'' None))"
proof (cases "jwt_decode e t")
  case None
  then show ?thesis
    by (simp add: all_checks_pass_malformed verifyToken_def jwt_verify_def)
next
  case (Some j)
  obtain p k where j: "j = Jwt p k" by (cases j)
  with Some have d: "jwt_decode e t = Some (Jwt p k)" by simp
  show ?thesis
    by (simp add: verifyToken_def jwt_verify_decoded [OF d] all_checks_pass_decoded [OF d]
        claims_of_def d)
qed

text \<open>
  C5. Whatever makes the verification of a token fail (the token is malformed, its
  signature was made with another key, it is not yet active or has expired, or it names
  another audience or issuer), \<open>verifyToken\<close> fails with the one error
  \<open>INVALID_TOKEN\<close>; it returns the payload of the token exactly when all checks pass.
\<close>

theorem verifyToken_single_error_kind:
  "(all_checks_pass e now t \<longrightarrow> verifyToken e now t = Inr (claims_of e t)) \<and>
   (\<not> all_checks_pass e now t \<longrightarrow>
      verifyToken e now t = Inl (AuthError msg_invalid_token ''INVALID_TOKEN'' None))"
  by (simp add: verifyToken_cases)

section \<open>The access gate and issued tokens\<close>

lemma get_upd: "get (m(k' \<mapsto> v)) k = (if k = k' then v else get m k)"
  by (simp add: get_def)

lemma get_object_Nil: "get (object []) k = JUndefined"
  by (simp add: get_def)

lemma get_object_Cons:
  "get (object ((k', v) # kvs)) k =
     (if k = k' \<and> v \<noteq> JUndefined then v else get (object kvs) k)"
  by (simp add: get_def)

lemma get_call_identity_role: "get (call_identity p) ''role'' = get p ''role''"
  by (simp add: call_identity_def get_object_Cons get_object_Nil del: object.simps)

lemma bearer_token_absent:
  "(case authorization req of None \<Rightarrow> True
    | Some h \<Rightarrow> \<not> startsWith h ''Bearer '' \<or> h = ''Bearer '') \<Longrightarrow>
   bearer_token req = None \<or> bearer_token req = Some []"
  by (auto simp: bearer_token_def split: option.splits)

lemma bearer_token_present:
  "authorization req = Some (''Bearer '' @ t) \<Longrightarrow> bearer_token req = Some t"
  by (simp add: bearer_token_def startsWith_def)

lemma authenticateToken_no_token:
  "bearer_token req = None \<or> bearer_token req = Some [] \<Longrightarrow>
   authenticateToken e now req = Respond 401 ''NO_TOKEN'' msg_no_token"
  by (auto simp: authenticateToken_def)

lemma authenticateToken_token:
  "bearer_token req = Some t \<Longrightarrow> t \<noteq> [] \<Longrightarrow>
   authenticateToken e now req =
     (if all_checks_pass e now t
      then Next (req\<lparr>req_user := Some (call_identity (claims_of e t))\<rparr>)
      else Respond 401 ''INVALID_TOKEN'' msg_invalid_token)"
  by (simp add: authenticateToken_def verifyToken_cases)

lemma requireRole_cases:
  "requireRole roles req =
     (case req_user req of
        None \<Rightarrow> Respond 401 ''NOT_AUTHENTICATED'' msg_not_authenticated
      | Some u \<Rightarrow> if get u ''role'' \<in> set (map JStr roles) then Next req
                  else Respond 403 ''INSUFFICIENT_PERMISSIONS'' msg_insufficient_permissions)"
  by (simp add: requireRole_def split: option.splits)

text \<open>
  C8. A call without a bearer credential (no authorization header, a header that does not
  start with \<open>Bearer\<close>, or an empty token) is answered \<open>NO_TOKEN\<close> by the mandatory
  gate; a call whose token fails verification, for instance an expired one, is answered
  \<open>INVALID_TOKEN\<close>; a call whose token verifies gets the identity of the token attached,
  and the role gate answers it \<open>INSUFFICIENT_PERMISSIONS\<close> when that role is outside the
  required roles; the role gate answers \<open>NOT_AUTHENTICATED\<close> when no identity is
  attached.
\<close>

theorem access_gate_failures:
  "((case authorization req of None \<Rightarrow> True
     | Some h \<Rightarrow> \<not> startsWith h ''Bearer '' \<or> h = ''Bearer '') \<longrightarrow>
      authenticateToken e now req = Respond 401 ''NO_TOKEN'' msg_no_token) \<and>
   (authorization req = Some (''Bearer '' @ t) \<and> t \<noteq> [] \<and> \<not> all_checks_pass e now t \<longrightarrow>
      authenticateToken e now req = Respond 401 ''INVALID_TOKEN'' msg_invalid_token) \<and>
   (authorization req = Some (''Bearer '' @ t) \<and> t \<noteq> [] \<and> all_checks_pass e now t \<and>
    get (claims_of e t) ''role'' \<notin> set (map JStr roles) \<longrightarrow>
      (\<exists>req'. authenticateToken e now req = Next req' \<and>
         req_user req' = Some (call_identity (claims_of e t)) \<and>
         requireRole roles req' =
           Respond 403 ''INSUFFICIENT_PERMISSIONS'' msg_insufficient_permissions)) \<and>
   (req_user req = None \<longrightarrow>
      requireRole roles req = Respond 401 ''NOT_AUTHENTICATED'' msg_not_authenticated)"
proof (intro conjI impI)
  assume "case authorization req of None \<Rightarrow> True
          | Some h \<Rightarrow> \<not> startsWith h ''Bearer '' \<or> h = ''Bearer ''"
  then show "authenticateToken e now req = Respond 401 ''NO_TOKEN'' msg_no_token"
    by (intro authenticateToken_no_token bearer_token_absent)
next
  assume "authorization req = Some (''Bearer '' @ t) \<and> t \<noteq> [] \<and> \<not> all_checks_pass e now t"
  then show "authenticateToken e now req = Respond 401 ''INVALID_TOKEN'' msg_invalid_token"
    by (simp add: authenticateToken_token bearer_token_present)
next
  assume a: "authorization req = Some (''Bearer '' @ t) \<and> t \<noteq> [] \<and> all_checks_pass e now t \<and>
    get (claims_of e t) ''role'' \<notin> set (map JStr roles)"
  let ?req' = "req\<lparr>req_user := Some (call_identity (claims_of e t))\<rparr>"
  from a have "authenticateToken e now req = Next ?req'"
    by (simp add: authenticateToken_token bearer_token_present)
  moreover from a have "requireRole roles ?req' =
      Respond 403 ''INSUFFICIENT_PERMISSIONS'' msg_insufficient_permissions"
    by (simp add: requireRole_cases get_call_identity_role)
  ultimately show "\<exists>req'. authenticateToken e now req = Next req' \<and>
         req_user req' = Some (call_identity (claims_of e t)) \<and>
         requireRole roles req' =
           Respond 403 ''INSUFFICIENT_PERMISSIONS'' msg_insufficient_permissions"
    by auto
next
  assume "req_user req = None"
  then show "requireRole roles req = Respond 401 ''NOT_AUTHENTICATED'' msg_not_authenticated"
    by (simp add: requireRole_cases)
qed

lemma example_decode_tagged:
  "jwt_decode example_env ''tagged.jwt'' =
     Some (Jwt ((jwt_claims example_payload 604800 0)
                  (''iss'' \<mapsto> JStr ''blog-backend'', ''aud'' \<mapsto> JStr ''blog-frontend''))
               example_secret)"
  by (simp add: example_env_def)

lemma example_tagged_claims:
  "get (claims_of example_env ''tagged.jwt'') k =
     (if k = ''aud'' then JStr ''blog-frontend''
      else if k = ''iss'' then JStr ''blog-backend''
      else if k = ''exp'' then JNum 604800
      else if k = ''iat'' then JNum 0
      else if k = ''userId'' then JStr ''u1''
      else if k = ''email'' then JStr ''a@x.com''
      else if k = ''role'' then JStr ''USER''
      else JUndefined)"
  by (simp add: claims_of_def example_decode_tagged jwt_claims_def example_payload_def
      AuthTokenPayload_def get_upd get_object_Cons get_object_Nil del: object.simps)

lemma example_tagged_pass:
  "all_checks_pass example_env now ''tagged.jwt'' \<longleftrightarrow> now div 1000 < 604800"
  by (simp add: all_checks_pass_def well_formed_def signature_ok_def example_decode_tagged
      active_def unexpired_def audience_ok_def issuer_ok_def example_tagged_claims)
    (simp add: example_env_def)

theorem verifyToken_single_error_kind_witness:
  "verifyToken example_env 1000 ''tagged.jwt'' = Inr (claims_of example_env ''tagged.jwt'') \<and>
   verifyToken example_env 604800000 ''tagged.jwt'' =
     Inl (AuthError msg_invalid_token ''INVALID_TOKEN'' None) \<and>
   verifyToken example_env 1000 ''not a token'' =
     Inl (AuthError msg_invalid_token ''INVALID_TOKEN'' None)"
proof -
  have a: "all_checks_pass example_env 1000 ''tagged.jwt''"
    by (simp add: example_tagged_pass)
  have b: "\<not> all_checks_pass example_env 604800000 ''tagged.jwt''"
    by (simp add: example_tagged_pass)
  have c: "\<not> all_checks_pass example_env 1000 ''not a token''"
    by (simp add: all_checks_pass_def well_formed_def example_env_def)
  from a b c show ?thesis
    using verifyToken_single_error_kind [of example_env 1000 "''tagged.jwt''"]
      verifyToken_single_error_kind [of example_env 604800000 "''tagged.jwt''"]
      verifyToken_single_error_kind [of example_env 1000 "''not a token''"]
    by blast
qed

theorem access_gate_failures_witness:
  "authenticateToken example_env 1000 \<lparr>authorization = None, req_user = None\<rparr> =
     Respond 401 ''NO_TOKEN'' msg_no_token \<and>
   authenticateToken example_env 604800000
       \<lparr>authorization = Some ''Bearer tagged.jwt'', req_user = None\<rparr> =
     Respond 401 ''INVALID_TOKEN'' msg_invalid_token \<and>
   (\<exists>req'. authenticateToken example_env 1000
              \<lparr>authorization = Some ''Bearer tagged.jwt'', req_user = None\<rparr> = Next req' \<and>
      req_user req' = Some (call_identity (claims_of example_env ''tagged.jwt'')) \<and>
      requireAdmin req' =
        Respond 403 ''INSUFFICIENT_PERMISSIONS'' msg_insufficient_permissions) \<and>
   requireAdmin \<lparr>authorization = None, req_user = None\<rparr> =
     Respond 401 ''NOT_AUTHENTICATED'' msg_not_authenticated"
proof -
  let ?none = "\<lparr>authorization = None, req_user = None\<rparr>"
  let ?req = "\<lparr>authorization = Some ''Bearer tagged.jwt'', req_user = None\<rparr>"
  have h1: "case authorization ?none of None \<Rightarrow> True
            | Some h \<Rightarrow> \<not> startsWith h ''Bearer '' \<or> h = ''Bearer ''"
    by simp
  have h2: "authorization ?req = Some (''Bearer '' @ ''tagged.jwt'') \<and> ''tagged.jwt'' \<noteq> [] \<and>
            \<not> all_checks_pass example_env 604800000 ''tagged.jwt''"
    by (simp add: example_tagged_pass)
  have h3: "authorization ?req = Some (''Bearer '' @ ''tagged.jwt'') \<and> ''tagged.jwt'' \<noteq> [] \<and>
            all_checks_pass example_env 1000 ''tagged.jwt'' \<and>
            get (claims_of example_env ''tagged.jwt'') ''role'' \<notin> set (map JStr [''ADMIN''])"
    by (simp add: example_tagged_pass example_tagged_claims)
  have h4: "req_user ?none = None" by simp
  have "authenticateToken example_env 1000 ?none = Respond 401 ''NO_TOKEN'' msg_no_token \<and>
    authenticateToken example_env 604800000 ?req =
      Respond 401 ''INVALID_TOKEN'' msg_invalid_token \<and>
    (\<exists>req'. authenticateToken example_env 1000 ?req = Next req' \<and>
       req_user req' = Some (call_identity (claims_of example_env ''tagged.jwt'')) \<and>
       requireRole [''ADMIN''] req' =
         Respond 403 ''INSUFFICIENT_PERMISSIONS'' msg_insufficient_permissions) \<and>
    requireRole [''ADMIN''] ?none = Respond 401 ''NOT_AUTHENTICATED'' msg_not_authenticated"
    using h1 h2 h3 h4
      access_gate_failures [of ?none example_env 1000 "''tagged.jwt''" "[''ADMIN'']"]
      access_gate_failures [of ?req example_env 604800000 "''tagged.jwt''" "[''ADMIN'']"]
      access_gate_failures [of ?req example_env 1000 "''tagged.jwt''" "[''ADMIN'']"]
    by blast
  then show ?thesis
    by (simp only: requireAdmin_def)
qed

lemma get_AuthTokenPayload:
  "get (AuthTokenPayload userId email role) k =
     (if k = ''userId'' then userId else if k = ''email'' then email
      else if k = ''role'' then role else JUndefined)"
  by (simp add: AuthTokenPayload_def get_object_Cons get_object_Nil del: object.simps)

lemma get_jwt_claims:
  "get (jwt_claims payload expiresIn now) k =
     (if k = ''exp'' then JNum (now div 1000 + expiresIn)
      else if k = ''iat'' then JNum (now div 1000) else get payload k)"
  by (simp add: jwt_claims_def Let_def get_upd)

text \<open>
  C1. The claim is that a token made by \<open>generateToken\<close> carries the issuer
  \<open>blog-backend\<close> and the audience \<open>blog-frontend\<close> and is accepted by
  \<open>verifyToken\<close> until it expires. The code signs the payload with an expiry only:
  whenever the serialisation returns the signed claims, the token has neither issuer nor
  audience, and \<open>verifyToken\<close>, which demands both, rejects it at every time.
\<close>

theorem generateToken_rejected_by_verifyToken:
  assumes "jwt_decode e (generateToken e now (AuthTokenPayload userId email role)) =
             Some (Jwt (jwt_claims (AuthTokenPayload userId email role) (JWT_EXPIRES_IN e) now)
                       (JWT_SECRET e))"
  shows "get (claims_of e (generateToken e now (AuthTokenPayload userId email role))) ''iss''
           = JUndefined \<and>
         get (claims_of e (generateToken e now (AuthTokenPayload userId email role))) ''aud''
           = JUndefined \<and>
         verifyToken e now' (generateToken e now (AuthTokenPayload userId email role)) =
           Inl (AuthError msg_invalid_token ''INVALID_TOKEN'' None)"
proof -
  let ?tok = "generateToken e now (AuthTokenPayload userId email role)"
  let ?c = "jwt_claims (AuthTokenPayload userId email role) (JWT_EXPIRES_IN e) now"
  have c: "claims_of e ?tok = ?c"
    using assms by (simp add: claims_of_def)
  have iss: "get ?c ''iss'' = JUndefined" and aud: "get ?c ''aud'' = JUndefined"
    by (simp_all add: get_jwt_claims get_AuthTokenPayload)
  from aud have "\<not> audience_ok ?c"
    by (simp add: audience_ok_def)
  then have "\<not> all_checks_pass e now' ?tok"
    by (simp add: all_checks_pass_def c)
  then show ?thesis
    by (simp add: verifyToken_cases c iss aud)
qed

theorem generateToken_rejected_by_verifyToken_witness:
  "verifyToken example_env 1000
     (generateToken example_env 0 (AuthTokenPayload (JStr ''u1'') (JStr ''a@x.com'') (JStr ''USER'')))
     = Inl (AuthError msg_invalid_token ''INVALID_TOKEN'' None)"
proof -
  have h: "jwt_decode example_env
             (generateToken example_env 0
                (AuthTokenPayload (JStr ''u1'') (JStr ''a@x.com'') (JStr ''USER''))) =
           Some (Jwt (jwt_claims (AuthTokenPayload (JStr ''u1'') (JStr ''a@x.com'') (JStr ''USER''))
                        (JWT_EXPIRES_IN example_env) 0)
                     (JWT_SECRET example_env))"
    by (simp add: generateToken_def jwt_sign_def example_env_def example_payload_def)
  from generateToken_rejected_by_verifyToken [OF h] show ?thesis by blast
qed

section \<open>The user table\<close>


lemma update_where_frame:
  "update_where f v data st = Some (u', st') \<Longrightarrow> defined data k = None \<Longrightarrow>
   map (\<lambda>u. u k) st' = map (\<lambda>u. u k) st"
proof (induction st arbitrary: st')
  case Nil
  then show ?case by simp
next
  case (Cons a st)
  then show ?case
    by (auto simp: map_add_def split: if_splits option.splits)
qed

lemma update_where_find:
  "update_where f v data st = Some (u', st') \<Longrightarrow> defined data f = None \<Longrightarrow>
   find (\<lambda>x. x f = Some v) st' = Some u' \<and>
   (\<exists>u. find (\<lambda>x. x f = Some v) st = Some u \<and> u' = u ++ defined data)"
proof (induction st arbitrary: st')
  case Nil
  then show ?case by simp
next
  case (Cons a st)
  then show ?case
    by (auto simp: map_add_def split: if_splits option.splits)
qed


lemma prisma_update_cases:
  "prisma_update v data st =
     (case update_where ''id'' v data st of None \<Rightarrow> Inl (PrismaError ''P2025'') | Some r \<Rightarrow> Inr r)"
  by (simp add: prisma_update_def)

lemma excludePassword_no_hash: "''passwordHash'' \<notin> dom (excludePassword u)"
  by (simp add: excludePassword_def)

text \<open>
  C2. Whenever \<open>register\<close>, \<open>login\<close>, \<open>getCurrentUser\<close> or \<open>updateProfile\<close>
  returns an account, the returned object has no \<open>passwordHash\<close> property.
\<close>

theorem returned_account_has_no_credential:
  "(register e data now salt newId st = (Inr r, st') \<longrightarrow> ''passwordHash'' \<notin> dom (user r)) \<and>
   (login e data now st = (Inr r, st') \<longrightarrow> ''passwordHash'' \<notin> dom (user r)) \<and>
   (getCurrentUser userId st = Inr u \<longrightarrow> ''passwordHash'' \<notin> dom u) \<and>
   (updateProfile e userId data now st = (Inr u, st') \<longrightarrow> ''passwordHash'' \<notin> dom u)"
proof (intro conjI impI)
  assume "register e data now salt newId st = (Inr r, st')"
  then obtain row where "user r = excludePassword row"
    by (auto simp: register_def Let_def split: sum.splits option.splits prod.splits)
  then show "''passwordHash'' \<notin> dom (user r)"
    by (simp add: excludePassword_no_hash)
next
  assume "login e data now st = (Inr r, st')"
  then obtain row where "user r = excludePassword row"
    by (auto simp: login_def split: sum.splits option.splits prod.splits if_splits)
  then show "''passwordHash'' \<notin> dom (user r)"
    by (simp add: excludePassword_no_hash)
next
  assume "getCurrentUser userId st = Inr u"
  then obtain row where "u = excludePassword row"
    by (auto simp: getCurrentUser_def split: option.splits)
  then show "''passwordHash'' \<notin> dom u"
    by (simp add: excludePassword_no_hash)
next
  assume "updateProfile e userId data now st = (Inr u, st')"
  then obtain row where "u = excludePassword row"
    by (auto simp: updateProfile_def split: sum.splits prod.splits)
  then show "''passwordHash'' \<notin> dom u"
    by (simp add: excludePassword_no_hash)
qed

section \<open>Input validation\<close>

lemma get_restrict: "get (m |` A) k = (if k \<in> A then get m k else JUndefined)"
  by (simp add: get_def restrict_map_def)

lemma z_string_Nil: "z_string checks path v = [] \<longleftrightarrow> (\<exists>s. v = JStr s \<and> checks s = [])"
  by (cases v) (auto simp: z_string_def)

lemma z_boolean_Nil: "z_boolean checks path v = [] \<longleftrightarrow> (\<exists>b. v = JBool b \<and> checks b = [])"
  by (cases v) (auto simp: z_boolean_def)

lemma z_optional_Nil: "z_optional schema path v = [] \<longleftrightarrow> v = JUndefined \<or> schema path v = []"
  by (simp add: z_optional_def)

lemma z_min_Nil: "z_min n s = [] \<longleftrightarrow> n \<le> length s"
  by (simp add: z_min_def)

lemma z_max_Nil: "z_max n s = [] \<longleftrightarrow> length s \<le> n"
  by (simp add: z_max_def)

lemma z_regex_Nil: "z_regex matches s = [] \<longleftrightarrow> matches s"
  by (simp add: z_regex_def)

lemma z_refine_Nil: "z_refine ok b = [] \<longleftrightarrow> ok b"
  by (simp add: z_refine_def)

lemmas z_Nil = z_string_Nil z_boolean_Nil z_optional_Nil z_min_Nil z_max_Nil z_regex_Nil z_refine_Nil

lemma z_object_cases:
  "z_object keys issues data =
     (if issues = [] then Inr (data |` set keys) else Inl (ZodError issues))"
  by (simp add: z_object_def)

lemma register_issues_Nil:
  "register_issues e data = [] \<longleftrightarrow>
     (\<exists>em. get data ''email'' = JStr em \<and> is_email e em) \<and>
     (\<exists>u. get data ''username'' = JStr u \<and> 3 \<le> length u \<and> length u \<le> 20 \<and> username_pattern u) \<and>
     (\<exists>d. get data ''displayName'' = JStr d \<and> 2 \<le> length d \<and> length d \<le> 50) \<and>
     (\<exists>p. get data ''password'' = JStr p \<and> 6 \<le> length p \<and> length p \<le> 100) \<and>
     get data ''agreeToTerms'' = JBool True"
  by (simp add: register_issues_def z_Nil) auto

lemma login_issues_Nil:
  "login_issues e data = [] \<longleftrightarrow>
     (\<exists>em. get data ''email'' = JStr em \<and> is_email e em) \<and>
     (\<exists>p. get data ''password'' = JStr p \<and> p \<noteq> []) \<and>
     (get data ''rememberMe'' = JUndefined \<or> (\<exists>b. get data ''rememberMe'' = JBool b))"
  by (simp add: login_issues_def z_Nil Suc_le_eq) 


text \<open>
  C10. A registration in which \<open>agreeToTerms\<close> is not exactly \<open>true\<close>, or the
  username is shorter than 3 or longer than 20 characters or has a character other than a
  letter, a digit or the underscore, or the password is shorter than 6 or longer than 100
  characters, fails with a validation error that does not depend on the table, and
  leaves the table as it was.
\<close>

theorem register_rejects_malformed_input:
  assumes "get data ''agreeToTerms'' \<noteq> JBool True \<or>
           (\<exists>u. get data ''username'' = JStr u \<and>
                (length u < 3 \<or> length u > 20 \<or> \<not> list_all word_char u)) \<or>
           (\<exists>p. get data ''password'' = JStr p \<and> (length p < 6 \<or> length p > 100))"
  shows "register_issues e data \<noteq> [] \<and>
         (\<forall>now salt newId st.
            register e data now salt newId st = (Inl (ZodError (register_issues e data)), st))"
proof -
  from assms have bad: "register_issues e data \<noteq> []"
    by (auto simp: register_issues_Nil username_pattern_def)
  then have "registerSchema e data = Inl (ZodError (register_issues e data))"
    by (simp add: registerSchema_def z_object_cases)
  then have "register e data now salt newId st = (Inl (ZodError (register_issues e data)), st)"
    for now salt newId st
    by (simp add: register_def)
  with bad show ?thesis by blast
qed

lemma example_register_issues:
  "register_issues example_env (example_registration(''agreeToTerms'' \<mapsto> JBool False)) =
     [(''agreeToTerms'', custom)]"
  by (simp add: register_issues_def get_def example_registration_def example_env_def
      z_string_def z_boolean_def z_min_def z_max_def z_regex_def z_refine_def
      username_pattern_def word_char_def)

theorem register_rejects_malformed_input_witness:
  "register example_env (example_registration(''agreeToTerms'' \<mapsto> JBool False))
     1000 ''s2'' ''u2'' example_store =
   (Inl (ZodError [(''agreeToTerms'', custom)]), example_store)"
proof -
  have h: "get (example_registration(''agreeToTerms'' \<mapsto> JBool False)) ''agreeToTerms''
             \<noteq> JBool True \<or>
           (\<exists>u. get (example_registration(''agreeToTerms'' \<mapsto> JBool False)) ''username'' = JStr u \<and>
                (length u < 3 \<or> length u > 20 \<or> \<not> list_all word_char u)) \<or>
           (\<exists>p. get (example_registration(''agreeToTerms'' \<mapsto> JBool False)) ''password'' = JStr p \<and>
                (length p < 6 \<or> length p > 100))"
    by (simp add: get_def)
  from register_rejects_malformed_input [OF h, of example_env]
  show ?thesis
    by (simp add: example_register_issues)
qed

section \<open>Login\<close>


lemma login_cases:
  assumes "login_issues e data = []"
  shows "login e data now st =
     (case findUnique ''email'' (get data ''email'') st of
        None \<Rightarrow> (Inl (AuthError msg_invalid_credentials ''INVALID_CREDENTIALS'' None), st)
      | Some u \<Rightarrow>
          if \<not> verifyPassword e (str (get data ''password'')) (str (get u ''passwordHash''))
          then (Inl (AuthError msg_invalid_credentials ''INVALID_CREDENTIALS'' None), st)
          else (case update_where ''id'' (get u ''id'') (login_data now) st of
                  None \<Rightarrow> (Inl (PrismaError ''P2025''), st)
                | Some (updatedUser, st') \<Rightarrow>
                    (Inr \<lparr>user = excludePassword updatedUser,
                          token = generateToken e now
                            (AuthTokenPayload (get u ''id'') (get u ''email'') (get u ''role''))\<rparr>,
                     st')))"
  using assms
  by (simp add: login_def loginSchema_def z_object_cases get_restrict prisma_update_cases
      login_data_def split: option.splits cong: option.case_cong if_cong)

lemma login_invalid:
  "login_issues e data \<noteq> [] \<Longrightarrow> login e data now st = (Inl (ZodError (login_issues e data)), st)"
  by (simp add: login_def loginSchema_def z_object_cases)

text \<open>
  C3. The claim speaks of every login call, but a call whose input fails the schema (an
  empty password, say) fails with the validation error before the table is consulted.
  For the calls that pass the schema, an unknown e-mail and a password that does not
  verify against the stored credential give the same error: the same code, the same
  message and no field; the table is left as it was in both cases.
\<close>

theorem login_failures_indistinguishable:
  assumes "login_issues e data1 = []" and "login_issues e data2 = []"
    and "findUnique ''email'' (get data1 ''email'') st1 = None"
    and "findUnique ''email'' (get data2 ''email'') st2 = Some u"
    and "\<not> verifyPassword e (str (get data2 ''password'')) (str (get u ''passwordHash''))"
  shows "login e data1 now1 st1 =
           (Inl (AuthError msg_invalid_credentials ''INVALID_CREDENTIALS'' None), st1) \<and>
         login e data2 now2 st2 =
           (Inl (AuthError msg_invalid_credentials ''INVALID_CREDENTIALS'' None), st2) \<and>
         fst (login e data1 now1 st1) = fst (login e data2 now2 st2)"
  using assms by (simp add: login_cases)

text \<open>
  The counterexample to the claim as stated: the e-mail is unknown, the password is
  empty, and the call fails with the issue of the schema.
\<close>

theorem login_validation_precedes_lookup:
  "findUnique ''email'' (JStr ''nobody@x.com'') example_store = None \<and>
   fst (login example_env (LoginData ''nobody@x.com'' []) 1000 example_store) =
     Inl (ZodError [(''password'', too_small)])"
  by (simp add: findUnique_def example_store_def example_user_def login_invalid
      login_issues_def LoginData_def get_def example_env_def
      z_string_def z_optional_def z_min_def z_regex_def)

theorem login_failures_indistinguishable_witness:
  "login example_env (LoginData ''nobody@x.com'' ''secret1'') 1000 example_store =
     (Inl (AuthError msg_invalid_credentials ''INVALID_CREDENTIALS'' None), example_store) \<and>
   login example_env (LoginData ''a@x.com'' ''wrong'') 2000 example_store =
     (Inl (AuthError msg_invalid_credentials ''INVALID_CREDENTIALS'' None), example_store) \<and>
   fst (login example_env (LoginData ''nobody@x.com'' ''secret1'') 1000 example_store) =
     fst (login example_env (LoginData ''a@x.com'' ''wrong'') 2000 example_store)"
proof -
  have v: "login_issues example_env (LoginData em pw) = []" if "CHR ''@'' \<in> set em" "pw \<noteq> []"
    for em pw
    using that by (simp add: login_issues_Nil LoginData_def get_def example_env_def)
  have h1: "login_issues example_env (LoginData ''nobody@x.com'' ''secret1'') = []"
    by (rule v) simp_all
  have h2: "login_issues example_env (LoginData ''a@x.com'' ''wrong'') = []"
    by (rule v) simp_all
  have h3: "findUnique ''email'' (get (LoginData ''nobody@x.com'' ''secret1'') ''email'')
              example_store = None"
    by (simp add: findUnique_def example_store_def example_user_def LoginData_def get_def)
  have h4: "findUnique ''email'' (get (LoginData ''a@x.com'' ''wrong'') ''email'')
              example_store = Some example_user"
    by (simp add: findUnique_def example_store_def example_user_def LoginData_def get_def)
  have h5: "\<not> verifyPassword example_env (str (get (LoginData ''a@x.com'' ''wrong'') ''password''))
               (str (get example_user ''passwordHash''))"
    by (simp add: verifyPassword_def example_env_def LoginData_def get_def example_user_def)
  from login_failures_indistinguishable [OF h1 h2 h3 h4 h5] show ?thesis .
qed

section \<open>Registration\<close>

lemma register_cases:
  assumes "register_issues e data = []"
  shows "register e data now salt newId st =
     (case findUnique ''email'' (get data ''email'') st of
        Some existingUserByEmail \<Rightarrow>
          (Inl (AuthError msg_email_exists ''EMAIL_EXISTS'' (Some ''email'')), st)
      | None \<Rightarrow>
          (case findUnique ''username'' (get data ''username'') st of
             Some existingUserByUsername \<Rightarrow>
               (Inl (AuthError msg_username_exists ''USERNAME_EXISTS'' (Some ''username'')), st)
           | None \<Rightarrow>
               (case prisma_create
                       (object [(''email'', get data ''email''),
                                (''username'', get data ''username''),
                                (''displayName'', get data ''displayName''),
                                (''passwordHash'',
                                   JStr (hashPassword e (str (get data ''password'')) salt)),
                                (''role'', JStr ''USER'')])
                       now newId st of
                  Inl err \<Rightarrow> (Inl err, st)
                | Inr (u, st') \<Rightarrow>
                    (Inr \<lparr>user = excludePassword u,
                          token = generateToken e now
                            (AuthTokenPayload (get u ''id'') (get u ''email'') (get u ''role''))\<rparr>,
                     st'))))"
  using assms
  by (simp add: register_def registerSchema_def z_object_cases get_restrict Let_def
      del: object.simps cong: option.case_cong)

lemma register_invalid:
  "register_issues e data \<noteq> [] \<Longrightarrow>
   register e data now salt newId st = (Inl (ZodError (register_issues e data)), st)"
  by (simp add: register_def registerSchema_def z_object_cases)

text \<open>
  C6. The claim speaks of every register call, but a call whose input fails the schema
  fails with the validation error whether or not its e-mail is taken. For the calls that
  pass the schema: when the e-mail is taken the call fails \<open>EMAIL_EXISTS\<close>, whatever the
  username; when the e-mail is fresh and the username is taken it fails
  \<open>USERNAME_EXISTS\<close>; and no call fails \<open>USERNAME_EXISTS\<close> otherwise.
\<close>

theorem register_checks_email_first:
  "(register_issues e data = [] \<and> findUnique ''email'' (get data ''email'') st = Some u \<longrightarrow>
      register e data now salt newId st =
        (Inl (AuthError msg_email_exists ''EMAIL_EXISTS'' (Some ''email'')), st)) \<and>
   (register_issues e data = [] \<and> findUnique ''email'' (get data ''email'') st = None \<and>
    findUnique ''username'' (get data ''username'') st = Some u \<longrightarrow>
      register e data now salt newId st =
        (Inl (AuthError msg_username_exists ''USERNAME_EXISTS'' (Some ''username'')), st)) \<and>
   (fst (register e data now salt newId st) = Inl (AuthError m ''USERNAME_EXISTS'' field) \<longrightarrow>
      register_issues e data = [] \<and> findUnique ''email'' (get data ''email'') st = None \<and>
      findUnique ''username'' (get data ''username'') st \<noteq> None)"
proof (intro conjI impI)
  assume "register_issues e data = [] \<and> findUnique ''email'' (get data ''email'') st = Some u"
  then show "register e data now salt newId st =
        (Inl (AuthError msg_email_exists ''EMAIL_EXISTS'' (Some ''email'')), st)"
    by (simp add: register_cases)
next
  assume "register_issues e data = [] \<and> findUnique ''email'' (get data ''email'') st = None \<and>
    findUnique ''username'' (get data ''username'') st = Some u"
  then show "register e data now salt newId st =
        (Inl (AuthError msg_username_exists ''USERNAME_EXISTS'' (Some ''username'')), st)"
    by (simp add: register_cases)
next
  assume a: "fst (register e data now salt newId st) = Inl (AuthError m ''USERNAME_EXISTS'' field)"
  show "register_issues e data = []"
  proof (rule ccontr)
    assume "register_issues e data \<noteq> []"
    with a show False by (simp add: register_invalid)
  qed
  with a show "findUnique ''email'' (get data ''email'') st = None"
    by (auto simp: register_cases prisma_create_def Let_def split: option.splits if_splits)
  from a \<open>register_issues e data = []\<close>
  show "findUnique ''username'' (get data ''username'') st \<noteq> None"
    by (auto simp: register_cases prisma_create_def Let_def split: option.splits if_splits)
qed

text \<open>
  The counterexample to the claim as stated: the e-mail is taken, the username is too
  short, and the call fails with the issue of the schema.
\<close>

theorem register_validation_precedes_lookup:
  "findUnique ''email'' (JStr ''a@x.com'') example_store = Some example_user \<and>
   fst (register example_env
          (example_registration(''email'' \<mapsto> JStr ''a@x.com'', ''username'' \<mapsto> JStr ''ab''))
          1000 ''s2'' ''u2'' example_store) =
     Inl (ZodError [(''username'', too_small)])"
proof -
  have "register_issues example_env
          (example_registration(''email'' \<mapsto> JStr ''a@x.com'', ''username'' \<mapsto> JStr ''ab'')) =
        [(''username'', too_small)]"
    by (simp add: register_issues_def get_def example_registration_def example_env_def
        z_string_def z_boolean_def z_min_def z_max_def z_regex_def z_refine_def
        username_pattern_def word_char_def)
  then show ?thesis
    by (simp add: register_invalid findUnique_def example_store_def example_user_def)
qed

theorem register_checks_email_first_witness:
  "register example_env (example_registration(''email'' \<mapsto> JStr ''a@x.com''))
     1000 ''s2'' ''u2'' example_store =
     (Inl (AuthError msg_email_exists ''EMAIL_EXISTS'' (Some ''email'')), example_store) \<and>
   register example_env (example_registration(''username'' \<mapsto> JStr ''alice''))
     1000 ''s2'' ''u2'' example_store =
     (Inl (AuthError msg_username_exists ''USERNAME_EXISTS'' (Some ''username'')), example_store) \<and>
   findUnique ''email''
     (get (example_registration(''username'' \<mapsto> JStr ''alice'')) ''email'') example_store = None"
proof -
  let ?d1 = "example_registration(''email'' \<mapsto> JStr ''a@x.com'')"
  let ?d2 = "example_registration(''username'' \<mapsto> JStr ''alice'')"
  have v1: "register_issues example_env ?d1 = []" and v2: "register_issues example_env ?d2 = []"
    by (simp_all add: register_issues_Nil get_def example_registration_def example_env_def
        username_pattern_def word_char_def)
  have e1: "findUnique ''email'' (get ?d1 ''email'') example_store = Some example_user"
    and e2: "findUnique ''email'' (get ?d2 ''email'') example_store = None"
    and u2: "findUnique ''username'' (get ?d2 ''username'') example_store = Some example_user"
    by (simp_all add: findUnique_def example_store_def example_user_def get_def
        example_registration_def)
  have r1: "register example_env ?d1 1000 ''s2'' ''u2'' example_store =
     (Inl (AuthError msg_email_exists ''EMAIL_EXISTS'' (Some ''email'')), example_store)"
    using v1 e1
      register_checks_email_first [of example_env ?d1 example_store example_user 1000 "''s2''" "''u2''"]
    by blast
  have r2: "register example_env ?d2 1000 ''s2'' ''u2'' example_store =
     (Inl (AuthError msg_username_exists ''USERNAME_EXISTS'' (Some ''username'')), example_store)"
    using v2 e2 u2
      register_checks_email_first [of example_env ?d2 example_store example_user 1000 "''s2''" "''u2''"]
    by blast
  from r2 have "fst (register example_env ?d2 1000 ''s2'' ''u2'' example_store) =
      Inl (AuthError msg_username_exists ''USERNAME_EXISTS'' (Some ''username''))"
    by simp
  with register_checks_email_first [of example_env ?d2 example_store example_user 1000 "''s2''" "''u2''"
      msg_username_exists "Some ''username''"]
  have "findUnique ''email'' (get ?d2 ''email'') example_store = None"
    by blast
  with r1 r2 show ?thesis by blast
qed

section \<open>Profile and password updates\<close>

lemma updateProfile_cases:
  "updateProfile e userId data now st =
     (if updateProfile_issues e data \<noteq> [] then (Inl (ZodError (updateProfile_issues e data)), st)
      else case update_where ''id'' (JStr userId) (profile_data data now) st of
             None \<Rightarrow> (Inl (PrismaError ''P2025''), st)
           | Some (updatedUser, st') \<Rightarrow> (Inr (excludePassword updatedUser), st'))"
  by (simp add: updateProfile_def updateProfileSchema_def z_object_cases prisma_update_cases
      profile_data_def split: option.splits)

lemma changePassword_cases:
  assumes "changePassword_issues data = []"
  shows "changePassword e userId data now salt st =
     (case findUnique ''id'' (JStr userId) st of
        None \<Rightarrow> (Inl (AuthError msg_user_not_found ''USER_NOT_FOUND'' None), st)
      | Some u \<Rightarrow>
          if \<not> verifyPassword e (str (get data ''oldPassword'')) (str (get u ''passwordHash''))
          then (Inl (AuthError msg_invalid_password ''INVALID_PASSWORD'' None), st)
          else (case update_where ''id'' (JStr userId)
                       (password_data (hashPassword e (str (get data ''newPassword'')) salt) now)
                       st of
                  None \<Rightarrow> (Inl (PrismaError ''P2025''), st)
                | Some (updatedUser, st') \<Rightarrow> (Inr (), st')))"
  using assms
  by (simp add: changePassword_def changePasswordSchema_def z_object_cases get_restrict
      prisma_update_cases Let_def password_data_def
      split: option.splits cong: option.case_cong if_cong)

lemma changePassword_invalid:
  "changePassword_issues data \<noteq> [] \<Longrightarrow>
   changePassword e userId data now salt st = (Inl (ZodError (changePassword_issues data)), st)"
  by (simp add: changePassword_def changePasswordSchema_def z_object_cases)

lemma profile_data_stamp:
  "defined (profile_data data now) k =
     (if k = ''updatedAt'' then Some (JDate now)
      else if k \<in> {''displayName'', ''bio'', ''avatar''} \<and> get data k \<noteq> JUndefined then data k
      else None)"
  by (auto simp: profile_data_def defined_def get_def restrict_map_def split: option.splits)

lemma password_data_stamp:
  "defined (password_data h now) k =
     (if k = ''updatedAt'' then Some (JDate now)
      else if k = ''passwordHash'' then Some (JStr h) else None)"
  by (simp add: password_data_def defined_def)


lemma get_map_add: "get (m ++ d) k = (case d k of None \<Rightarrow> get m k | Some v \<Rightarrow> v)"
  by (simp add: get_def map_add_def split: option.splits)

lemma update_where_source:
  "update_where f v data st = Some (u', st') \<Longrightarrow>
   \<exists>u. find (\<lambda>x. x f = Some v) st = Some u \<and> u' = u ++ defined data"
proof (induction st arbitrary: st')
  case Nil
  then show ?case by simp
next
  case (Cons a st)
  then show ?case
    by (auto split: if_splits option.splits)
qed

lemma updateProfile_Inr:
  assumes "updateProfile e userId data now st = (Inr r, st')"
  shows "\<exists>u'. update_where ''id'' (JStr userId) (profile_data data now) st = Some (u', st') \<and>
              r = excludePassword u'"
  using assms unfolding updateProfile_cases
  by (auto split: if_splits option.splits)

lemma changePassword_Inr:
  assumes "changePassword e userId data now salt st = (Inr (), st')"
  shows "changePassword_issues data = [] \<and>
         (\<exists>u u'. findUnique ''id'' (JStr userId) st = Some u \<and>
            verifyPassword e (str (get data ''oldPassword'')) (str (get u ''passwordHash'')) \<and>
            update_where ''id'' (JStr userId)
              (password_data (hashPassword e (str (get data ''newPassword'')) salt) now) st
              = Some (u', st'))"
proof -
  have v: "changePassword_issues data = []"
    using assms by (rule_tac ccontr) (simp add: changePassword_invalid)
  show ?thesis
    using assms unfolding changePassword_cases [OF v]
    by (auto simp: v split: if_splits option.splits)
qed

section \<open>Timestamps\<close>

lemma update_where_written:
  assumes "update_where f v data st = Some (u', st')"
  shows "get u' k = (case defined data k of None \<Rightarrow> get u' k | Some w \<Rightarrow> w)"
proof -
  from update_where_source [OF assms] obtain u where "u' = u ++ defined data" by blast
  then show ?thesis
    by (simp add: get_map_add split: option.splits)
qed

text \<open>
  \<open>updateProfile\<close> and \<open>changePassword\<close> hand \<open>updatedAt\<close> to \<open>update\<close>
  themselves: after a successful call the account carries the time of the call.
  \<open>login\<close> hands over \<open>lastLoginAt\<close> alone; whether its row is stamped rests with
  the declaration of the table, which is not among the sources.
\<close>

lemma explicit_updatedAt_writes:
  "(updateProfile e userId data now st = (Inr r, st') \<longrightarrow>
      (\<exists>u'. findUnique ''id'' (JStr userId) st' = Some u' \<and> get u' ''updatedAt'' = JDate now)) \<and>
   (changePassword e userId data now salt st = (Inr (), st') \<longrightarrow>
      (\<exists>u'. findUnique ''id'' (JStr userId) st' = Some u' \<and> get u' ''updatedAt'' = JDate now))"
proof (intro conjI impI)
  assume "updateProfile e userId data now st = (Inr r, st')"
  then obtain u' where
    u: "update_where ''id'' (JStr userId) (profile_data data now) st = Some (u', st')"
    using updateProfile_Inr by blast
  have "defined (profile_data data now) ''id'' = None"
    by (simp add: profile_data_stamp)
  with update_where_find [OF u] have "findUnique ''id'' (JStr userId) st' = Some u'"
    by (simp add: findUnique_def)
  moreover from update_where_written [OF u, of "''updatedAt''"]
  have "get u' ''updatedAt'' = JDate now"
    by (simp add: profile_data_stamp)
  ultimately
  show "\<exists>u'. findUnique ''id'' (JStr userId) st' = Some u' \<and> get u' ''updatedAt'' = JDate now"
    by blast
next
  assume "changePassword e userId data now salt st = (Inr (), st')"
  then obtain u' h where
    u: "update_where ''id'' (JStr userId) (password_data h now) st = Some (u', st')"
    using changePassword_Inr by blast
  have "defined (password_data h now) ''id'' = None"
    by (simp add: password_data_stamp)
  with update_where_find [OF u] have "findUnique ''id'' (JStr userId) st' = Some u'"
    by (simp add: findUnique_def)
  moreover from update_where_written [OF u, of "''updatedAt''"]
  have "get u' ''updatedAt'' = JDate now"
    by (simp add: password_data_stamp)
  ultimately
  show "\<exists>u'. findUnique ''id'' (JStr userId) st' = Some u' \<and> get u' ''updatedAt'' = JDate now"
    by blast
qed

lemma example_user_fields:
  "example_user ''id'' = Some (JStr ''u1'')"
  "example_user ''email'' = Some (JStr ''a@x.com'')"
  "example_user ''username'' = Some (JStr ''alice'')"
  "example_user ''passwordHash'' = Some (JStr ''s1secret1'')"
  "example_user ''updatedAt'' = Some (JDate 0)"
  by (simp_all add: example_user_def)

lemma example_findUnique:
  "findUnique ''id'' (JStr ''u1'') example_store = Some example_user"
  "findUnique ''email'' (JStr ''a@x.com'') example_store = Some example_user"
  by (simp_all add: findUnique_def example_store_def example_user_fields)

lemma example_update_where:
  "update_where ''id'' (JStr ''u1'') data example_store =
     Some (example_user ++ defined data, [example_user ++ defined data])"
  by (simp add: example_store_def example_user_fields)

lemma example_login_issues:
  "CHR ''@'' \<in> set em \<Longrightarrow> pw \<noteq> [] \<Longrightarrow> login_issues example_env (LoginData em pw) = []"
  by (simp add: login_issues_Nil LoginData_def get_def example_env_def)

lemma get_LoginData:
  "get (LoginData em pw) ''email'' = JStr em" "get (LoginData em pw) ''password'' = JStr pw"
  by (simp_all add: LoginData_def get_def)

lemma example_verifyPassword:
  "verifyPassword example_env pw (str (get example_user ''passwordHash'')) \<longleftrightarrow> pw = ''secret1''"
  by (auto simp: verifyPassword_def example_env_def get_def example_user_fields)

lemma example_login:
  "\<exists>a. login example_env (LoginData ''a@x.com'' ''secret1'') now example_store =
     (Inr a, [example_user ++ defined (login_data now)])"
proof -
  have v: "login_issues example_env (LoginData ''a@x.com'' ''secret1'') = []"
    by (rule example_login_issues) simp_all
  show ?thesis
    by (simp add: login_cases [OF v] get_LoginData example_findUnique example_verifyPassword)
       (simp add: get_def example_user_fields example_update_where)
qed

lemma example_updateProfile:
  "\<exists>r. updateProfile example_env ''u1'' [''bio'' \<mapsto> JStr ''hello''] now example_store =
     (Inr r, [example_user ++ defined (profile_data [''bio'' \<mapsto> JStr ''hello''] now)])"
proof -
  have "updateProfile_issues example_env [''bio'' \<mapsto> JStr ''hello''] = []"
    by (simp add: updateProfile_issues_def get_def z_optional_def z_string_def z_max_def z_avatar_def)
  then show ?thesis
    by (simp add: updateProfile_cases example_update_where)
qed

section \<open>Returned accounts and the frame of a profile update\<close>

lemma example_register_issues_ok: "register_issues example_env example_registration = []"
  by (simp add: register_issues_Nil get_def example_registration_def example_env_def
      username_pattern_def word_char_def)

lemma example_register:
  "\<exists>r st'. register example_env example_registration 1000 ''s2'' ''u2'' example_store = (Inr r, st')"
  by (simp add: register_cases [OF example_register_issues_ok])
     (simp add: get_def example_registration_def findUnique_def example_store_def
        example_user_fields prisma_create_def user_defaults_def duplicates_def Let_def)

lemma example_getCurrentUser: "getCurrentUser ''u1'' example_store = Inr (excludePassword example_user)"
  by (simp add: getCurrentUser_def example_findUnique)

theorem returned_account_has_no_credential_witness:
  "(\<exists>r st'. register example_env example_registration 1000 ''s2'' ''u2'' example_store = (Inr r, st')
      \<and> ''passwordHash'' \<notin> dom (user r)) \<and>
   (\<exists>r st'. login example_env (LoginData ''a@x.com'' ''secret1'') 1000 example_store = (Inr r, st')
      \<and> ''passwordHash'' \<notin> dom (user r)) \<and>
   (\<exists>u. getCurrentUser ''u1'' example_store = Inr u \<and> ''passwordHash'' \<notin> dom u) \<and>
   (\<exists>u st'. updateProfile example_env ''u1'' [''bio'' \<mapsto> JStr ''hello''] 1000 example_store
      = (Inr u, st') \<and> ''passwordHash'' \<notin> dom u)"
proof -
  obtain r1 st1 where
    a: "register example_env example_registration 1000 ''s2'' ''u2'' example_store = (Inr r1, st1)"
    using example_register by blast
  obtain r2 st2 where
    b: "login example_env (LoginData ''a@x.com'' ''secret1'') 1000 example_store = (Inr r2, st2)"
    using example_login by blast
  obtain u4 st4 where
    d: "updateProfile example_env ''u1'' [''bio'' \<mapsto> JStr ''hello''] 1000 example_store = (Inr u4, st4)"
    using example_updateProfile by blast
  note c = example_getCurrentUser
  from a returned_account_has_no_credential
         [where e = example_env and data = example_registration and now = 1000 and salt = "''s2''"
            and newId = "''u2''" and st = example_store and r = r1 and st' = st1]
  have 1: "''passwordHash'' \<notin> dom (user r1)" by blast
  from b returned_account_has_no_credential
         [where e = example_env and data = "LoginData ''a@x.com'' ''secret1''" and now = 1000
            and st = example_store and r = r2 and st' = st2]
  have 2: "''passwordHash'' \<notin> dom (user r2)" by blast
  from c returned_account_has_no_credential
         [where userId = "''u1''" and st = example_store and u = "excludePassword example_user"]
  have 3: "''passwordHash'' \<notin> dom (excludePassword example_user)" by blast
  from d returned_account_has_no_credential
         [where e = example_env and data = "[''bio'' \<mapsto> JStr ''hello'']" and now = 1000
            and userId = "''u1''" and st = example_store and u = u4 and st' = st4]
  have 4: "''passwordHash'' \<notin> dom u4" by blast
  show ?thesis
  proof (intro conjI)
    from a 1 show "\<exists>r st'. register example_env example_registration 1000 ''s2'' ''u2'' example_store
        = (Inr r, st') \<and> ''passwordHash'' \<notin> dom (user r)"
      by (intro exI [of _ r1] exI [of _ st1]) simp
    from b 2 show "\<exists>r st'. login example_env (LoginData ''a@x.com'' ''secret1'') 1000 example_store
        = (Inr r, st') \<and> ''passwordHash'' \<notin> dom (user r)"
      by (intro exI [of _ r2] exI [of _ st2]) simp
    from c 3 show "\<exists>u. getCurrentUser ''u1'' example_store = Inr u \<and> ''passwordHash'' \<notin> dom u"
      by (intro exI [of _ "excludePassword example_user"]) simp
    from d 4 show "\<exists>u st'. updateProfile example_env ''u1'' [''bio'' \<mapsto> JStr ''hello''] 1000
        example_store = (Inr u, st') \<and> ''passwordHash'' \<notin> dom u"
      by (intro exI [of _ u4] exI [of _ st4]) simp
  qed
qed

text \<open>
  C9. The claim is that \<open>updateProfile\<close> writes only the supplied fields among
  \<open>displayName\<close>, \<open>bio\<close> and \<open>avatar\<close>. It writes \<open>updatedAt\<close> as well, which
  the caller cannot supply. With that one addition the claim holds: no other property
  of any row changes, in particular not the e-mail, the username, the role or the
  credential; of the three profile fields, those not supplied keep their value; and after
  a successful call the account carries each supplied field and is returned without its
  credential.
\<close>

theorem updateProfile_frame:
  assumes "updateProfile e userId data now st = (res, st')"
  shows "(\<forall>k. k \<notin> {''displayName'', ''bio'', ''avatar'', ''updatedAt''} \<longrightarrow>
            map (\<lambda>u. u k) st' = map (\<lambda>u. u k) st) \<and>
         (\<forall>k \<in> {''email'', ''username'', ''role'', ''passwordHash''}.
            map (\<lambda>u. u k) st' = map (\<lambda>u. u k) st) \<and>
         (\<forall>k \<in> {''displayName'', ''bio'', ''avatar''}. get data k = JUndefined \<longrightarrow>
            map (\<lambda>u. u k) st' = map (\<lambda>u. u k) st) \<and>
         (\<forall>r. res = Inr r \<longrightarrow>
            (\<exists>u u'. findUnique ''id'' (JStr userId) st = Some u \<and>
               findUnique ''id'' (JStr userId) st' = Some u' \<and> r = excludePassword u' \<and>
               (\<forall>k \<in> {''displayName'', ''bio'', ''avatar''}.
                  get u' k = (if get data k = JUndefined then get u k else get data k))))"
proof -
  have frame: "map (\<lambda>u. u k) st' = map (\<lambda>u. u k) st"
    if "defined (profile_data data now) k = None" for k
  proof (cases res)
    case (Inl err)
    with assms have "st' = st"
      unfolding updateProfile_cases by (auto split: if_splits option.splits)
    then show ?thesis by simp
  next
    case (Inr r)
    with assms obtain u' where
      "update_where ''id'' (JStr userId) (profile_data data now) st = Some (u', st')"
      using updateProfile_Inr by blast
    from update_where_frame [OF this that] show ?thesis .
  qed
  have 1: "\<forall>k. k \<notin> {''displayName'', ''bio'', ''avatar'', ''updatedAt''} \<longrightarrow>
            map (\<lambda>u. u k) st' = map (\<lambda>u. u k) st"
    by (intro allI impI frame) (simp add: profile_data_stamp)
  have 2: "\<forall>k \<in> {''email'', ''username'', ''role'', ''passwordHash''}.
            map (\<lambda>u. u k) st' = map (\<lambda>u. u k) st"
    by (intro ballI frame) (auto simp: profile_data_stamp)
  have 3: "\<forall>k \<in> {''displayName'', ''bio'', ''avatar''}. get data k = JUndefined \<longrightarrow>
            map (\<lambda>u. u k) st' = map (\<lambda>u. u k) st"
    by (intro ballI impI frame) (auto simp: profile_data_stamp)
  have 4: "\<exists>u u'. findUnique ''id'' (JStr userId) st = Some u \<and>
               findUnique ''id'' (JStr userId) st' = Some u' \<and> r = excludePassword u' \<and>
               (\<forall>k \<in> {''displayName'', ''bio'', ''avatar''}.
                  get u' k = (if get data k = JUndefined then get u k else get data k))"
    if "res = Inr r" for r
  proof -
    from that assms obtain u' where
      u: "update_where ''id'' (JStr userId) (profile_data data now) st = Some (u', st')"
      and r: "r = excludePassword u'"
      using updateProfile_Inr by blast
    have "defined (profile_data data now) ''id'' = None"
      by (simp add: profile_data_stamp)
    with update_where_find [OF u] obtain u0 where
      f': "findUnique ''id'' (JStr userId) st' = Some u'"
      and f: "findUnique ''id'' (JStr userId) st = Some u0"
      and u': "u' = u0 ++ defined (profile_data data now)"
      by (auto simp: findUnique_def)
    have "get u' k = (if get data k = JUndefined then get u0 k else get data k)"
      if "k \<in> {''displayName'', ''bio'', ''avatar''}" for k
      using that by (auto simp: u' get_map_add profile_data_stamp get_def split: option.splits)
    with f f' r show ?thesis by blast
  qed
  from 1 2 3 4 show ?thesis by blast
qed

text \<open>
  The counterexample to the claim as stated: a call that supplies \<open>bio\<close> alone changes
  \<open>updatedAt\<close> from 0 to the time of the call.
\<close>

theorem updateProfile_writes_updatedAt:
  "get example_user ''updatedAt'' = JDate 0 \<and>
   (\<exists>r u'. updateProfile example_env ''u1'' [''bio'' \<mapsto> JStr ''hello''] 5000 example_store
            = (Inr r, [u']) \<and> get u' ''updatedAt'' = JDate 5000)"
proof -
  obtain r where
    "updateProfile example_env ''u1'' [''bio'' \<mapsto> JStr ''hello''] 5000 example_store =
       (Inr r, [example_user ++ defined (profile_data [''bio'' \<mapsto> JStr ''hello''] 5000)])"
    using example_updateProfile by blast
  moreover have "get (example_user ++ defined (profile_data [''bio'' \<mapsto> JStr ''hello''] 5000))
                   ''updatedAt'' = JDate 5000"
    by (simp add: get_map_add profile_data_stamp)
  moreover have "get example_user ''updatedAt'' = JDate 0"
    by (simp add: get_def example_user_fields)
  ultimately show ?thesis by blast
qed

theorem updateProfile_frame_witness:
  "\<exists>r st' u'. updateProfile example_env ''u1'' [''bio'' \<mapsto> JStr ''hello''] 5000 example_store
       = (Inr r, st') \<and>
     map (\<lambda>u. u ''email'') st' = [Some (JStr ''a@x.com'')] \<and>
     map (\<lambda>u. u ''passwordHash'') st' = [Some (JStr ''s1secret1'')] \<and>
     map (\<lambda>u. u ''displayName'') st' = [Some (JStr ''Alice'')] \<and>
     findUnique ''id'' (JStr ''u1'') st' = Some u' \<and> r = excludePassword u' \<and>
     get u' ''bio'' = JStr ''hello''"
proof -
  let ?data = "[''bio'' \<mapsto> JStr ''hello'']"
  obtain r st' where
    p: "updateProfile example_env ''u1'' ?data 5000 example_store = (Inr r, st')"
    using example_updateProfile by blast
  note f = updateProfile_frame [OF p]
  have g: "get ?data ''bio'' = JStr ''hello''" "get ?data ''displayName'' = JUndefined"
    by (simp_all add: get_def)
  from f have "map (\<lambda>u. u ''email'') st' = map (\<lambda>u. u ''email'') example_store"
    and "map (\<lambda>u. u ''passwordHash'') st' = map (\<lambda>u. u ''passwordHash'') example_store"
    by simp_all
  then have 1: "map (\<lambda>u. u ''email'') st' = [Some (JStr ''a@x.com'')]"
    and 2: "map (\<lambda>u. u ''passwordHash'') st' = [Some (JStr ''s1secret1'')]"
    by (simp_all add: example_store_def example_user_fields)
  from f g have "map (\<lambda>u. u ''displayName'') st' = map (\<lambda>u. u ''displayName'') example_store"
    by simp
  then have 3: "map (\<lambda>u. u ''displayName'') st' = [Some (JStr ''Alice'')]"
    by (simp add: example_store_def example_user_def)
  from f obtain u u' where
    4: "findUnique ''id'' (JStr ''u1'') st' = Some u'" "r = excludePassword u'"
    and "\<forall>k \<in> {''displayName'', ''bio'', ''avatar''}.
           get u' k = (if get ?data k = JUndefined then get u k else get ?data k)"
    by blast
  then have 5: "get u' ''bio'' = JStr ''hello''"
    using g by simp
  from p 1 2 3 4 5 show ?thesis
    by (intro exI [of _ r] exI [of _ st'] exI [of _ u']) simp
qed

section \<open>Password change and login\<close>






























end
